theory Spec2Isabelle
  imports Complex_Main "HOL-Library.Multiset"
begin

section \<open>JavaScript numbers\<close>

text \<open>
  A JavaScript \<^verbatim>\<open>number\<close> is an IEEE double. The finite doubles are idealised as the
  reals (no rounding, no overflow, a single zero); the three non-finite values the code
  can produce (\<^verbatim>\<open>Infinity\<close>, \<^verbatim>\<open>-Infinity\<close>, \<^verbatim>\<open>NaN\<close>) are kept apart, with the
  arithmetic and the comparisons IEEE gives them.
\<close>

datatype jsnum = Fin real | PosInf | NegInf | NaN

fun js_neg :: "jsnum \<Rightarrow> jsnum" where
  "js_neg (Fin a) = Fin (- a)"
| "js_neg PosInf = NegInf"
| "js_neg NegInf = PosInf"
| "js_neg NaN = NaN"

fun js_add :: "jsnum \<Rightarrow> jsnum \<Rightarrow> jsnum" where
  "js_add (Fin a) (Fin b) = Fin (a + b)"
| "js_add NaN _ = NaN"
| "js_add _ NaN = NaN"
| "js_add PosInf NegInf = NaN"
| "js_add NegInf PosInf = NaN"
| "js_add PosInf _ = PosInf"
| "js_add _ PosInf = PosInf"
| "js_add NegInf _ = NegInf"
| "js_add _ NegInf = NegInf"

definition js_sub :: "jsnum \<Rightarrow> jsnum \<Rightarrow> jsnum" where
  "js_sub a b = js_add a (js_neg b)"

text \<open>An infinity times (or a non-zero number over zero with the sign of) a finite \<open>a\<close>.\<close>

definition inf_times :: "real \<Rightarrow> jsnum" where
  "inf_times a = (if a = 0 then NaN else if 0 < a then PosInf else NegInf)"

fun js_mul :: "jsnum \<Rightarrow> jsnum \<Rightarrow> jsnum" where
  "js_mul (Fin a) (Fin b) = Fin (a * b)"
| "js_mul NaN _ = NaN"
| "js_mul _ NaN = NaN"
| "js_mul PosInf (Fin b) = inf_times b"
| "js_mul (Fin a) PosInf = inf_times a"
| "js_mul NegInf (Fin b) = inf_times (- b)"
| "js_mul (Fin a) NegInf = inf_times (- a)"
| "js_mul PosInf PosInf = PosInf"
| "js_mul NegInf NegInf = PosInf"
| "js_mul PosInf NegInf = NegInf"
| "js_mul NegInf PosInf = NegInf"

fun js_div :: "jsnum \<Rightarrow> jsnum \<Rightarrow> jsnum" where
  "js_div (Fin a) (Fin b) = (if b = 0 then inf_times a else Fin (a / b))"
| "js_div NaN _ = NaN"
| "js_div _ NaN = NaN"
| "js_div (Fin a) _ = Fin 0"
| "js_div PosInf (Fin b) = (if b < 0 then NegInf else PosInf)"
| "js_div NegInf (Fin b) = (if b < 0 then PosInf else NegInf)"
| "js_div PosInf PosInf = NaN"
| "js_div PosInf NegInf = NaN"
| "js_div NegInf PosInf = NaN"
| "js_div NegInf NegInf = NaN"

fun js_lt :: "jsnum \<Rightarrow> jsnum \<Rightarrow> bool" where
  "js_lt NaN _ = False"
| "js_lt _ NaN = False"
| "js_lt (Fin a) (Fin b) = (a < b)"
| "js_lt NegInf NegInf = False"
| "js_lt NegInf _ = True"
| "js_lt _ NegInf = False"
| "js_lt PosInf _ = False"
| "js_lt _ PosInf = True"

definition js_gt :: "jsnum \<Rightarrow> jsnum \<Rightarrow> bool" where
  "js_gt a b = js_lt b a"

definition js_le :: "jsnum \<Rightarrow> jsnum \<Rightarrow> bool" where
  "js_le a b = (a \<noteq> NaN \<and> b \<noteq> NaN \<and> \<not> js_lt b a)"

definition js_ge :: "jsnum \<Rightarrow> jsnum \<Rightarrow> bool" where
  "js_ge a b = js_le b a"

text \<open>Strict equality \<^verbatim>\<open>===\<close> on numbers: \<^verbatim>\<open>NaN\<close> equals nothing.\<close>

definition js_eq :: "jsnum \<Rightarrow> jsnum \<Rightarrow> bool" where
  "js_eq a b = (a \<noteq> NaN \<and> a = b)"

text \<open>\<^verbatim>\<open>Math.log10\<close> (of a finite number) and \<^verbatim>\<open>Math.exp\<close>.\<close>

definition Math_log10 :: "real \<Rightarrow> jsnum" where
  "Math_log10 a = (if 0 < a then Fin (log 10 a) else if a = 0 then NegInf else NaN)"

fun Math_exp :: "jsnum \<Rightarrow> jsnum" where
  "Math_exp (Fin a) = Fin (exp a)"
| "Math_exp PosInf = PosInf"
| "Math_exp NegInf = Fin 0"
| "Math_exp NaN = NaN"

section \<open>Path-loss model\<close>

text \<open>
  \<^verbatim>\<open>const fsplDb = (dMeters, fMHz) => {
    const dKm = Math.max(dMeters / 1000, 0.001);
    return 32.4 + 20 * Math.log10(fMHz) + 20 * Math.log10(dKm); }\<close>
\<close>

definition fsplDb :: "real \<Rightarrow> real \<Rightarrow> jsnum" where
  "fsplDb dMeters fMHz =
     (let dKm = max (dMeters / 1000) 0.001
      in js_add (js_add (Fin 32.4) (js_mul (Fin 20) (Math_log10 fMHz)))
                (js_mul (Fin 20) (Math_log10 dKm)))"

text \<open>The formula of the specification, on the reals.\<close>

definition fspl_formula :: "real \<Rightarrow> real \<Rightarrow> real" where
  "fspl_formula dMeters fMHz =
     32.4 + 20 * log 10 fMHz + 20 * log 10 (max (dMeters / 1000) 0.001)"


section \<open>Vectors\<close>

text \<open>
  \<^verbatim>\<open>THREE.Vector3\<close> with the operations the engine calls, as the library defines them:
  \<^verbatim>\<open>normalize()\<close> is \<^verbatim>\<open>divideScalar(length() || 1)\<close>, so the zero vector stays zero.
\<close>

datatype vec3 = Vector3 (vx: real) (vy: real) (vz: real)

definition v_add :: "vec3 \<Rightarrow> vec3 \<Rightarrow> vec3" where
  "v_add a b = Vector3 (vx a + vx b) (vy a + vy b) (vz a + vz b)"

definition v_sub :: "vec3 \<Rightarrow> vec3 \<Rightarrow> vec3" where
  "v_sub a b = Vector3 (vx a - vx b) (vy a - vy b) (vz a - vz b)"

definition multiplyScalar :: "vec3 \<Rightarrow> real \<Rightarrow> vec3" where
  "multiplyScalar a s = Vector3 (vx a * s) (vy a * s) (vz a * s)"

definition dot :: "vec3 \<Rightarrow> vec3 \<Rightarrow> real" where
  "dot a b = vx a * vx b + vy a * vy b + vz a * vz b"

definition v_length :: "vec3 \<Rightarrow> real" where
  "v_length a = sqrt (vx a * vx a + vy a * vy a + vz a * vz a)"

definition normalize :: "vec3 \<Rightarrow> vec3" where
  "normalize a = multiplyScalar a (1 / (if v_length a = 0 then 1 else v_length a))"



text \<open>
  \<^verbatim>\<open>const reflect = (dir, normal) =>
    dir.clone().sub(normal.clone().multiplyScalar(2 * dir.dot(normal))).normalize();\<close>
\<close>

definition reflect :: "vec3 \<Rightarrow> vec3 \<Rightarrow> vec3" where
  "reflect dir normal = normalize (v_sub dir (multiplyScalar normal (2 * dot dir normal)))"

section \<open>Transmitters, geometry queries, ray hops\<close>

text \<open>
  A transmitter (\<^verbatim>\<open>type Tx\<close>); its optional mobility mode moves \<open>pos\<close> between queries
  and is read by no function modelled here. A colour is its hex string.
\<close>

type_synonym color = string

record Tx =
  tx_id :: string
  pos :: vec3
  powerDbm :: real
  freqMHz :: real
  color :: color

text \<open>
  One intersection returned by \<^verbatim>\<open>THREE.Raycaster.intersectObjects\<close>: its distance and
  point, the face normal already taken to world space
  (\<^verbatim>\<open>hit.face.normal.clone().transformDirection(hit.object.matrixWorld)\<close>, absent when the
  hit has no face), and \<^verbatim>\<open>hit.object.userData.materialType\<close>.
  The geometry index is external: a scene is a function from the mesh list, the ray's
  origin and direction and the raycaster's \<^verbatim>\<open>far\<close> to the hits, nearest first.
\<close>

record hit =
  hit_distance :: real
  hit_point :: vec3
  hit_normal :: "vec3 option"
  hit_materialType :: "string option"

type_synonym 'm raycaster = "'m list \<Rightarrow> vec3 \<Rightarrow> vec3 \<Rightarrow> real \<Rightarrow> hit list"

record RayHop =
  hop_from :: vec3
  hop_to :: vec3
  distance :: real
  fsplLoss :: jsnum
  reflLoss :: real
  material :: string
  prAfter :: jsnum

record segment =
  seg_points :: "vec3 \<times> vec3"
  seg_los :: bool
  seg_color :: color
  seg_alpha :: jsnum

record RayBundle =
  segments :: "segment list"
  hops :: "RayHop list"
  bundle_color :: color

definition DEFAULT_PWR :: real where "DEFAULT_PWR = 36"
definition MAX_BOUNCES :: nat where "MAX_BOUNCES = 2"
definition MIN_POWER_DBM :: real where "MIN_POWER_DBM = - 110"
definition WALL_LOSS_DB :: real where "WALL_LOSS_DB = 25"

text \<open>\<^verbatim>\<open>Math.max\<close> and \<^verbatim>\<open>Math.min\<close> of two numbers, and \<^verbatim>\<open>THREE.MathUtils.clamp\<close>.\<close>

definition js_max2 :: "jsnum \<Rightarrow> jsnum \<Rightarrow> jsnum" where
  "js_max2 a b = (if a = NaN \<or> b = NaN then NaN else if js_lt a b then b else a)"

definition js_min2 :: "jsnum \<Rightarrow> jsnum \<Rightarrow> jsnum" where
  "js_min2 a b = (if a = NaN \<or> b = NaN then NaN else if js_lt b a then b else a)"

definition clamp :: "jsnum \<Rightarrow> jsnum \<Rightarrow> jsnum \<Rightarrow> jsnum" where
  "clamp v lo hi = js_max2 lo (js_min2 hi v)"

text \<open>
  \<^verbatim>\<open>function fibonacciSphereDirs(n)\<close>: for \<open>i = 0 .. n - 1\<close>,
  \<^verbatim>\<open>y = 1 - (i / Math.max(n - 1, 1)) * 2; radius = Math.sqrt(Math.max(1 - y * y, 0));
  theta = phi * i\<close> with \<^verbatim>\<open>phi = Math.PI * (3 - Math.sqrt(5))\<close>.
\<close>

definition fibonacciDir :: "nat \<Rightarrow> nat \<Rightarrow> vec3" where
  "fibonacciDir n i =
     (let phi = pi * (3 - sqrt 5);
          y = 1 - (real i / max (real n - 1) 1) * 2;
          radius = sqrt (max (1 - y * y) 0);
          theta = phi * real i
      in normalize (Vector3 (cos theta * radius) y (sin theta * radius)))"

definition fibonacciSphereDirs :: "nat \<Rightarrow> vec3 list" where
  "fibonacciSphereDirs n = map (fibonacciDir n) [0..<n]"

text \<open>
  \<^verbatim>\<open>function materialReflectionLossDb(mesh, normal, dirIn)\<close>, given the mesh's
  \<^verbatim>\<open>userData.materialType\<close>.
\<close>

definition materialReflectionLossDb :: "string option \<Rightarrow> vec3 \<Rightarrow> vec3 \<Rightarrow> real" where
  "materialReflectionLossDb matType normal dirIn =
     (let grazing = 1 - \<bar>dot (normalize normal) (normalize dirIn)\<bar>
      in if matType = Some ''glass'' then 10 + 10 * grazing
         else if matType = Some ''metal'' then 0 + 3 * grazing
         else 3 + 6 * grazing)"

section \<open>Ray propagation engine\<close>

text \<open>
  The loop \<^verbatim>\<open>while (bounces <= maxBounces && power > MIN_POWER_DBM)\<close> of
  \<^verbatim>\<open>buildRayBundle\<close>, for one direction. The loop state is \<open>origin\<close>, \<open>dir\<close>, \<open>pw\<close> (the
  source's \<^verbatim>\<open>power\<close>), \<open>bounces\<close>, \<open>first\<close> and the two output arrays;
  \<^verbatim>\<open>rc.far = 5000\<close>. A \<^verbatim>\<open>break\<close> returns the arrays.
\<close>

definition hop_material :: "bool \<Rightarrow> string option \<Rightarrow> string" where
  "hop_material first matType =
     (if first then ''los''
      else (case matType of None \<Rightarrow> ''concrete''
            | Some m \<Rightarrow> if m = [] then ''concrete'' else m))"

function march ::
  "'m raycaster \<Rightarrow> 'm list \<Rightarrow> Tx \<Rightarrow> nat \<Rightarrow> vec3 \<Rightarrow> vec3 \<Rightarrow> jsnum \<Rightarrow> nat \<Rightarrow> bool \<Rightarrow>
   RayHop list \<Rightarrow> segment list \<Rightarrow> RayHop list \<times> segment list" where
  "march rc meshes tx maxBounces origin dir pw bounces first hs segs =
     (if bounces \<le> maxBounces \<and> js_gt pw (Fin MIN_POWER_DBM) then
        (case rc meshes origin dir 5000 of
           [] \<Rightarrow> (hs, segs)
         | h # _ \<Rightarrow>
             (let d = hit_distance h;
                  fspl = fsplDb d (freqMHz tx);
                  pw1 = js_sub pw fspl;
                  p = hit_point h;
                  n = (case hit_normal h of Some nw \<Rightarrow> nw | None \<Rightarrow> Vector3 0 1 0);
                  refl = (if first then 0 else materialReflectionLossDb (hit_materialType h) n dir);
                  pw2 = (if \<not> first then js_sub pw1 (Fin refl) else pw1);
                  hs2 = hs @ [\<lparr>hop_from = origin, hop_to = p, distance = d, fsplLoss = fspl,
                               reflLoss = refl, material = hop_material first (hit_materialType h),
                               prAfter = pw2\<rparr>];
                  segs2 = segs @ [\<lparr>seg_points = (origin, p), seg_los = first, seg_color = color tx,
                                   seg_alpha = clamp (js_div (js_sub pw2 (Fin MIN_POWER_DBM))
                                                        (Fin (DEFAULT_PWR - MIN_POWER_DBM)))
                                                 (Fin 0.15) (Fin 1)\<rparr>];
                  newDir = reflect dir n;
                  origin2 = v_add p (multiplyScalar newDir 0.25)
              in if js_le pw2 (Fin MIN_POWER_DBM) then (hs2, segs2)
                 else march rc meshes tx maxBounces origin2 newDir pw2 (Suc bounces) False hs2 segs2))
      else (hs, segs))"
  by pat_completeness auto
termination
  by (relation "measure (\<lambda>(rc, meshes, tx, maxBounces, origin, dir, pw, bounces, first, hs, segs).
                           Suc maxBounces - bounces)") auto

declare march.simps [simp del]

text \<open>
  \<^verbatim>\<open>function buildRayBundle(tx, meshes, rayCount, maxBounces = MAX_BOUNCES)\<close>: one march per
  Fibonacci direction from \<^verbatim>\<open>tx.pos + 0.5 * dir\<close> at power \<^verbatim>\<open>tx.powerDbm\<close>; a direction
  that recorded no segment adds no bundle.
\<close>

definition bundleFor :: "'m raycaster \<Rightarrow> 'm list \<Rightarrow> Tx \<Rightarrow> nat \<Rightarrow> vec3 \<Rightarrow> RayBundle list" where
  "bundleFor rc meshes tx maxBounces dir =
     (let origin = v_add (pos tx) (multiplyScalar dir 0.5);
          (hs, segs) = march rc meshes tx maxBounces origin dir (Fin (powerDbm tx)) 0 True [] []
      in if segs \<noteq> [] then [\<lparr>segments = segs, hops = hs, bundle_color = color tx\<rparr>] else [])"

definition buildRayBundle :: "'m raycaster \<Rightarrow> Tx \<Rightarrow> 'm list \<Rightarrow> nat \<Rightarrow> nat \<Rightarrow> RayBundle list" where
  "buildRayBundle rc tx meshes rayCount maxBounces =
     (if meshes = [] then []
      else concat (map (bundleFor rc meshes tx maxBounces) (fibonacciSphereDirs rayCount)))"

section \<open>Point probe\<close>

text \<open>
  \<^verbatim>\<open>Math.max(...values)\<close> (\<^verbatim>\<open>-Infinity\<close> of no argument, \<^verbatim>\<open>NaN\<close> as soon as one argument
  is), \<^verbatim>\<open>values.indexOf(v)\<close> (strict equality, \<open>-1\<close> when absent) and \<^verbatim>\<open>a || b\<close> on
  numbers (\<open>0\<close> and \<^verbatim>\<open>NaN\<close> are falsy).
\<close>

definition Math_max :: "jsnum list \<Rightarrow> jsnum" where
  "Math_max vals = foldl js_max2 NegInf vals"

fun indexOf_from :: "jsnum list \<Rightarrow> jsnum \<Rightarrow> int \<Rightarrow> int" where
  "indexOf_from [] v i = - 1"
| "indexOf_from (x # xs) v i = (if js_eq x v then i else indexOf_from xs v (i + 1))"

definition indexOf :: "jsnum list \<Rightarrow> jsnum \<Rightarrow> int" where
  "indexOf vals v = indexOf_from vals v 0"

definition js_or :: "jsnum \<Rightarrow> jsnum \<Rightarrow> jsnum" where
  "js_or a b = (if a = NaN \<or> a = Fin 0 then b else a)"

text \<open>
  \<^verbatim>\<open>function softmaxDbm(values, temp = 4) {
    if (values.length === 0) return { weights: [], bestIdx: -1 };
    const maxv = Math.max(...values);
    const exps = values.map((v) => Math.exp((v - maxv) / temp));
    const sum = exps.reduce((a, b) => a + b, 0) || 1;
    const weights = exps.map((e) => e / sum);
    const bestIdx = values.indexOf(Math.max(...values));
    return { weights, bestIdx }; }\<close>
\<close>

definition softmaxDbm :: "jsnum list \<Rightarrow> real \<Rightarrow> jsnum list \<times> int" where
  "softmaxDbm vals temp =
     (if vals = [] then ([], - 1)
      else
        (let maxv = Math_max vals;
             exps = map (\<lambda>v. Math_exp (js_div (js_sub v maxv) (Fin temp))) vals;
             total = js_or (foldl js_add (Fin 0) exps) (Fin 1);
             ws = map (\<lambda>e. js_div e total) exps;
             bi = indexOf vals (Math_max vals)
         in (ws, bi)))"

text \<open>
  \<^verbatim>\<open>[...pr].sort((a, b) => b - a)\<close>. \<^verbatim>\<open>Array.prototype.sort\<close> is stable and reads a
  comparator result of \<^verbatim>\<open>NaN\<close> as \<open>+0\<close>; it is modelled as the stable insertion sort.
  For an array holding \<^verbatim>\<open>NaN\<close> the comparator is inconsistent and the language leaves the
  order to the engine: there the model's order is not the engine's (V8 leaves
  \<open>[-50, NaN, -40]\<close> as it is, the insertion sort gives \<open>[-40, -50, NaN]\<close>), and nothing
  below is stated of the order of such an array.
\<close>

definition cmp_desc :: "jsnum \<Rightarrow> jsnum \<Rightarrow> jsnum" where
  "cmp_desc a b = js_sub b a"

fun sort_insert :: "(jsnum \<Rightarrow> jsnum \<Rightarrow> jsnum) \<Rightarrow> jsnum \<Rightarrow> jsnum list \<Rightarrow> jsnum list" where
  "sort_insert cmp v [] = [v]"
| "sort_insert cmp v (y # ys) =
     (if js_lt (cmp v y) (Fin 0) then v # y # ys else y # sort_insert cmp v ys)"

definition array_sort :: "(jsnum \<Rightarrow> jsnum \<Rightarrow> jsnum) \<Rightarrow> jsnum list \<Rightarrow> jsnum list" where
  "array_sort cmp vals = foldl (\<lambda>acc v. sort_insert cmp v acc) [] vals"

datatype quality = Excellent | Good | Fair | Poor | Dead

text \<open>
  A row of \<^verbatim>\<open>ProbePayload["rows"]\<close>; \<open>row_dist\<close> is the distance before
  \<^verbatim>\<open>toFixed(1)\<close> formats it.
\<close>

record probe_row =
  row_idx :: int
  row_pr :: jsnum
  row_los :: bool
  row_dist :: real
  row_freq :: real

record ProbePayload =
  rows :: "probe_row list"
  bestIdx :: int
  margin :: jsnum
  bestPower :: jsnum
  qualityTier :: quality
  interferenceCount :: nat
  handoverStable :: bool
  weights :: "jsnum list"

text \<open>
  The body of \<^verbatim>\<open>txs.forEach((t, idx) => ...)\<close> in \<^verbatim>\<open>probeAtWithRc\<close>: one line-of-sight
  query from the probe point towards the transmitter with
  \<^verbatim>\<open>rc.far = Math.max(dist - 0.25, 0.25)\<close>; \<^verbatim>\<open>los = !rc.intersectObjects(meshes, true)[0]\<close>.
\<close>

definition probeRow :: "'m raycaster \<Rightarrow> 'm list \<Rightarrow> vec3 \<Rightarrow> nat \<Rightarrow> Tx \<Rightarrow> probe_row" where
  "probeRow rc meshes p idx t =
     (let dir0 = v_sub (pos t) p;
          d = v_length dir0;
          dir = normalize dir0;
          far = max (d - 0.25) 0.25;
          los = (rc meshes p dir far = []);
          pl = js_add (fsplDb d (freqMHz t)) (Fin (if los then 0 else WALL_LOSS_DB));
          val = js_sub (Fin (powerDbm t)) pl
      in \<lparr>row_idx = int idx + 1, row_pr = val, row_los = los, row_dist = d,
          row_freq = freqMHz t\<rparr>)"

definition probeAtWithRc :: "'m raycaster \<Rightarrow> vec3 \<Rightarrow> Tx list \<Rightarrow> 'm list \<Rightarrow> ProbePayload" where
  "probeAtWithRc rc p txs meshes =
     (let rs = map (\<lambda>(idx, t). probeRow rc meshes p idx t) (enumerate 0 txs);
          pr = map row_pr rs;
          (ws, bi) = softmaxDbm pr 4;
          srt = array_sort cmp_desc pr;
          best = (case srt of [] \<Rightarrow> NegInf | b # _ \<Rightarrow> b);
          secondBest = (case srt of _ # s # _ \<Rightarrow> s | _ \<Rightarrow> best);
          mg = js_sub best secondBest;
          tier = (if js_gt best (Fin (- 70)) then Excellent
                  else if js_gt best (Fin (- 85)) then Good
                  else if js_gt best (Fin (- 100)) then Fair
                  else if js_gt best (Fin MIN_POWER_DBM) then Poor
                  else Dead)
      in \<lparr>rows = rs,
          bestIdx = (if bi \<ge> 0 then bi else 0) + 1,
          margin = mg,
          bestPower = best,
          qualityTier = tier,
          interferenceCount = length (filter (\<lambda>v. js_gt v (Fin (- 80))) pr),
          handoverStable = js_ge mg (Fin 3.0),
          weights = ws\<rparr>)"


text \<open>
  The margin of the explanation route (\<^verbatim>\<open>route.ts\<close>, \<^verbatim>\<open>POST\<close>), from the received powers
  of the sorted analyses (the route answers 400 before, when there is no transmitter):
  \<^verbatim>\<open>const margin = secondBest ? parseFloat(best.receivedPower) -
  parseFloat(secondBest.receivedPower) : Infinity;\<close>
\<close>

definition route_margin :: "real \<Rightarrow> real list \<Rightarrow> jsnum" where
  "route_margin best others =
     (case others of [] \<Rightarrow> PosInf | secondBest # _ \<Rightarrow> Fin (best - secondBest))"

section \<open>Drive-test analyzer\<close>











section \<open>Interference field\<close>












section \<open>Reference definitions\<close>

text \<open>
  What the specification says of the probe, on the reals: the line-of-sight test of one
  transmitter, its received power (transmit power minus free-space path loss, minus the
  25 dB obstruction penalty when the test finds an intersection), and the quality tier as a
  step function of the best power.
\<close>

definition lineOfSight :: "'m raycaster \<Rightarrow> 'm list \<Rightarrow> vec3 \<Rightarrow> Tx \<Rightarrow> bool" where
  "lineOfSight rc meshes p t =
     (rc meshes p (normalize (v_sub (pos t) p)) (max (v_length (v_sub (pos t) p) - 0.25) 0.25) = [])"

definition receivedPower :: "'m raycaster \<Rightarrow> 'm list \<Rightarrow> vec3 \<Rightarrow> Tx \<Rightarrow> real" where
  "receivedPower rc meshes p t =
     powerDbm t - (fspl_formula (v_length (v_sub (pos t) p)) (freqMHz t)
                   + (if lineOfSight rc meshes p t then 0 else 25))"

definition quality_step :: "jsnum \<Rightarrow> quality" where
  "quality_step best =
     (if js_gt best (Fin (- 70)) then Excellent
      else if js_gt best (Fin (- 85)) then Good
      else if js_gt best (Fin (- 100)) then Fair
      else if js_gt best (Fin (- 110)) then Poor
      else Dead)"

text \<open>The softmax weights of the specification, \<open>exp ((v - m) / T)\<close> normalised, at \<open>T = 4\<close>.\<close>

definition softmax_weights :: "real list \<Rightarrow> real \<Rightarrow> real list" where
  "softmax_weights xs m =
     map (\<lambda>x. exp ((x - m) / 4) / sum_list (map (\<lambda>y. exp ((y - m) / 4)) xs)) xs"

text \<open>
  The power after one hop of a ray that had power \<open>q\<close>: the hop's free-space loss is
  subtracted, and on every hop but the first the reflection loss at the surface hit.
\<close>

definition hopPower :: "real \<Rightarrow> bool \<Rightarrow> hit \<Rightarrow> vec3 \<Rightarrow> Tx \<Rightarrow> real" where
  "hopPower q first h dir tx =
     q - fspl_formula (hit_distance h) (freqMHz tx)
       - (if first then 0
          else materialReflectionLossDb (hit_materialType h)
                 (case hit_normal h of Some nw \<Rightarrow> nw | None \<Rightarrow> Vector3 0 1 0) dir)"







text \<open>Descending insertion sort on the reals: what the comparator sort does to finite values.\<close>

fun ins_desc :: "real \<Rightarrow> real list \<Rightarrow> real list" where
  "ins_desc v [] = [v]"
| "ins_desc v (y # ys) = (if y < v then v # y # ys else y # ins_desc v ys)"

definition sort_desc :: "real list \<Rightarrow> real list" where
  "sort_desc xs = foldl (\<lambda>acc v. ins_desc v acc) [] xs"

text \<open>
  Example scenes: open space, and a concrete wall in the plane \<open>x = 500\<close>, which a ray
  meets when it reaches the plane within \<open>far\<close>; a transmitter of power \<open>P\<close> at 1 GHz,
  1000 m from the origin (free-space loss \<open>32.4 + 60 + 0 = 92.4\<close> dB there).
\<close>

definition open_scene :: "unit raycaster" where
  "open_scene meshes origin dir far = []"

definition wall_scene :: "unit raycaster" where
  "wall_scene meshes origin dir far =
     (let t = (if vx dir = 0 then - 1 else (500 - vx origin) / vx dir)
      in if 0 \<le> t \<and> t \<le> far
         then [\<lparr>hit_distance = t, hit_point = v_add origin (multiplyScalar dir t),
                hit_normal = Some (Vector3 (- 1) 0 0), hit_materialType = Some ''concrete''\<rparr>]
         else [])"

definition example_tx :: "real \<Rightarrow> Tx" where
  "example_tx P = \<lparr>tx_id = ''tx-1'', pos = Vector3 1000 0 0, powerDbm = P, freqMHz = 1000,
                    color = ''#38bdf8''\<rparr>"

text \<open>
  A floor at height \<open>lo\<close> and a ceiling at height \<open>hi\<close>, both of concrete: a ray going up
  meets the ceiling, one going down the floor, within \<open>far\<close>.
\<close>

definition slab_scene :: "real \<Rightarrow> real \<Rightarrow> unit raycaster" where
  "slab_scene lo hi meshes origin dir far =
     (let t = (if 0 < vy dir then (hi - vy origin) / vy dir
               else if vy dir < 0 then (lo - vy origin) / vy dir
               else - 1)
      in if 0 \<le> t \<and> t \<le> far
         then [\<lparr>hit_distance = t, hit_point = v_add origin (multiplyScalar dir t),
                hit_normal = Some (Vector3 0 (if 0 < vy dir then - 1 else 1) 0),
                hit_materialType = Some ''concrete''\<rparr>]
         else [])"

section \<open>Properties of the path-loss model\<close>

lemma fsplDb_finite: "0 < f \<Longrightarrow> fsplDb d f = Fin (fspl_formula d f)"
  by (simp add: fsplDb_def fspl_formula_def Math_log10_def Let_def max_def)

lemma js_gt_Fin [simp]: "js_gt (Fin a) (Fin b) = (b < a)"
  by (simp add: js_gt_def)

lemma js_le_Fin [simp]: "js_le (Fin a) (Fin b) = (a \<le> b)"
  by (auto simp: js_le_def)

lemma js_ge_Fin [simp]: "js_ge (Fin a) (Fin b) = (b \<le> a)"
  by (simp add: js_ge_def)

lemma fspl_formula_mono:
  assumes "d1 \<le> d2"
  shows "fspl_formula d1 f \<le> fspl_formula d2 f"
proof -
  have "max (d1 / 1000) 0.001 \<le> max (d2 / 1000) 0.001"
    using assms by (simp add: max_def)
  moreover have "0 < max (d1 / 1000) (0.001::real)"
    by (simp add: max_def)
  ultimately have "log 10 (max (d1 / 1000) 0.001) \<le> log 10 (max (d2 / 1000) 0.001)"
    by (simp add: log_le_cancel_iff)
  then show ?thesis
    by (simp add: fspl_formula_def)
qed

lemma fspl_formula_strict_mono:
  assumes "d1 < d2" and "1 < d2"
  shows "fspl_formula d1 f < fspl_formula d2 f"
proof -
  have "max (d1 / 1000) 0.001 < max (d2 / 1000) 0.001"
    using assms by (simp add: max_def)
  moreover have "0 < max (d1 / 1000) (0.001::real)"
    by (simp add: max_def)
  ultimately have "log 10 (max (d1 / 1000) 0.001) < log 10 (max (d2 / 1000) 0.001)"
    by (simp add: log_less_cancel_iff)
  then show ?thesis
    by (simp add: fspl_formula_def)
qed

text \<open>
  Claim C3, as stated: free-space path loss is strictly monotonic in distance for all
  \<open>d2 > d1 > 0\<close> at a fixed positive frequency. It fails below the one-metre floor:
  half a metre and one metre both clamp to 0.001 km and get the same loss.
\<close>

theorem fsplDb_strict_mono_counterexample:
  "(0::real) < 1 / 2 \<and> (1 / 2 :: real) < 1 \<and> (0::real) < 2400 \<and>
   \<not> js_gt (fsplDb 1 2400) (fsplDb (1 / 2) 2400)"
  by (simp add: fsplDb_finite fspl_formula_def)

lemma fsplDb_floor: "d \<le> 1 \<Longrightarrow> fsplDb d f = fsplDb 1 f"
  by (simp add: fsplDb_def Let_def max_def)

text \<open>
  Claim C3, amended: for all \<open>d2 > d1 > 0\<close> and every frequency \<open>f > 0\<close> the loss at
  \<open>d2\<close> is at least the loss at \<open>d1\<close>; it is strictly greater whenever \<open>d2\<close> lies above
  the one-metre floor, and when \<open>d2\<close> is at most one metre both distances get the same loss,
  that of one metre.
\<close>

theorem fsplDb_mono_above_floor:
  assumes "0 < d1" and "d1 < d2" and "0 < f"
  shows "js_le (fsplDb d1 f) (fsplDb d2 f) \<and>
         (1 < d2 \<longrightarrow> js_gt (fsplDb d2 f) (fsplDb d1 f)) \<and>
         (d2 \<le> 1 \<longrightarrow> fsplDb d1 f = fsplDb d2 f \<and> fsplDb d2 f = fsplDb 1 f)"
proof -
  have "js_le (fsplDb d1 f) (fsplDb d2 f) \<and> (1 < d2 \<longrightarrow> js_gt (fsplDb d2 f) (fsplDb d1 f))"
    using assms fspl_formula_mono [of d1 d2 f] fspl_formula_strict_mono [of d1 d2 f]
    by (simp add: fsplDb_finite)
  moreover have "d2 \<le> 1 \<longrightarrow> fsplDb d1 f = fsplDb d2 f \<and> fsplDb d2 f = fsplDb 1 f"
    using assms(2) fsplDb_floor [of d1 f] fsplDb_floor [of d2 f] by simp
  ultimately show ?thesis by blast
qed

theorem fsplDb_mono_above_floor_witness:
  "js_le (fsplDb 100 2400) (fsplDb 1000 2400) \<and> js_gt (fsplDb 1000 2400) (fsplDb 100 2400) \<and>
   js_le (fsplDb (1 / 2) 2400) (fsplDb 1 2400) \<and> fsplDb (1 / 2) 2400 = fsplDb 1 2400"
  using fsplDb_mono_above_floor [of 100 1000 2400] fsplDb_mono_above_floor [of "1 / 2" 1 2400]
  by (simp add: fsplDb_finite)

section \<open>Sorting and the probe over finite powers\<close>


lemma probeRow_finite:
  assumes "0 < freqMHz t"
  shows "row_pr (probeRow rc meshes p idx t) = Fin (receivedPower rc meshes p t)"
    and "row_los (probeRow rc meshes p idx t) = lineOfSight rc meshes p t"
  using assms
  by (simp_all add: probeRow_def Let_def receivedPower_def lineOfSight_def fsplDb_finite
      js_sub_def WALL_LOSS_DB_def)

lemma row_los_probeRow: "row_los (probeRow rc meshes p idx t) = lineOfSight rc meshes p t"
  by (simp add: probeRow_def Let_def lineOfSight_def)

lemma map_row_pr_enumerate:
  assumes "\<forall>t \<in> set txs. 0 < freqMHz t"
  shows "map row_pr (map (\<lambda>(idx, t). probeRow rc meshes p idx t) (enumerate n txs))
         = map (\<lambda>t. Fin (receivedPower rc meshes p t)) txs"
  using assms by (induction txs arbitrary: n) (simp_all add: probeRow_finite)

lemma sort_insert_Fin:
  "sort_insert cmp_desc (Fin v) (map Fin ys) = map Fin (ins_desc v ys)"
  by (induction ys) (simp_all add: cmp_desc_def js_sub_def)

lemma foldl_sort_insert_Fin:
  "foldl (\<lambda>acc v. sort_insert cmp_desc v acc) (map Fin acc) (map Fin xs)
   = map Fin (foldl (\<lambda>acc v. ins_desc v acc) acc xs)"
  by (induction xs arbitrary: acc) (simp_all add: sort_insert_Fin)

lemma array_sort_Fin: "array_sort cmp_desc (map Fin xs) = map Fin (sort_desc xs)"
  using foldl_sort_insert_Fin [of "[]" xs] by (simp add: array_sort_def sort_desc_def)

lemma mset_ins_desc: "mset (ins_desc v ys) = add_mset v (mset ys)"
  by (induction ys) simp_all

lemma set_ins_desc: "set (ins_desc v ys) = insert v (set ys)"
  by (induction ys) auto

lemma sorted_ins_desc: "sorted_wrt (\<ge>) ys \<Longrightarrow> sorted_wrt (\<ge>) (ins_desc v ys)"
  by (induction ys) (auto simp: set_ins_desc)

lemma foldl_ins_desc:
  "sorted_wrt (\<ge>) acc \<Longrightarrow>
   sorted_wrt (\<ge>) (foldl (\<lambda>acc v. ins_desc v acc) acc xs) \<and>
   mset (foldl (\<lambda>acc v. ins_desc v acc) acc xs) = mset acc + mset xs"
  by (induction xs arbitrary: acc) (simp_all add: sorted_ins_desc mset_ins_desc)

lemma sort_desc_sorted: "sorted_wrt (\<ge>) (sort_desc xs)"
  using foldl_ins_desc [of "[]" xs] by (simp add: sort_desc_def)

lemma mset_sort_desc: "mset (sort_desc xs) = mset xs"
  using foldl_ins_desc [of "[]" xs] by (simp add: sort_desc_def)

lemma set_sort_desc: "set (sort_desc xs) = set xs"
  using mset_sort_desc [of xs] by (metis set_mset_mset)

lemma length_sort_desc: "length (sort_desc xs) = length xs"
  using mset_sort_desc [of xs] by (metis size_mset)

lemma sort_desc_hd:
  assumes "sort_desc xs = b # rest"
  shows "b = Max (set xs)"
proof -
  have "\<forall>x \<in> set rest. x \<le> b"
    using sort_desc_sorted [of xs] assms by simp
  then have "Max (set (b # rest)) = b"
    by (intro Max_eqI) auto
  then show ?thesis
    using set_sort_desc [of xs] assms by simp
qed

lemma sort_desc_second:
  assumes "sort_desc xs = b # s # rest"
  shows "s = Max (set (remove1 (Max (set xs)) xs))"
proof -
  have b: "b = Max (set xs)" using sort_desc_hd [OF assms] .
  have "mset (remove1 b xs) = mset xs - {#b#}" by simp
  also have "\<dots> = mset (s # rest)"
    using mset_sort_desc [of xs] assms by (metis add_mset_remove_trivial mset.simps(2))
  finally have "set (remove1 b xs) = set (s # rest)" by (metis set_mset_mset)
  moreover have "\<forall>x \<in> set rest. x \<le> s"
    using sort_desc_sorted [of xs] assms by simp
  then have "Max (set (s # rest)) = s"
    by (intro Max_eqI) auto
  ultimately show ?thesis using b by simp
qed

lemma rows_probe:
  "rows (probeAtWithRc rc p txs meshes) = map (\<lambda>(idx, t). probeRow rc meshes p idx t) (enumerate 0 txs)"
  by (simp add: probeAtWithRc_def Let_def split: prod.splits)

lemma qualityTier_probe:
  "qualityTier (probeAtWithRc rc p txs meshes) = quality_step (bestPower (probeAtWithRc rc p txs meshes))"
  by (simp add: probeAtWithRc_def Let_def quality_step_def MIN_POWER_DBM_def split: prod.splits)

lemma handoverStable_probe:
  "handoverStable (probeAtWithRc rc p txs meshes) = js_ge (margin (probeAtWithRc rc p txs meshes)) (Fin 3)"
  by (simp add: probeAtWithRc_def Let_def split: prod.splits)

lemma js_ge_cases: "js_ge m (Fin c) = (case m of Fin a \<Rightarrow> c \<le> a | PosInf \<Rightarrow> True | NegInf \<Rightarrow> False | NaN \<Rightarrow> False)"
  by (cases m) (auto simp: js_ge_def js_le_def)

lemma log10_1000: "log 10 (1000::real) = 3"
proof -
  have "log 10 ((10::real) ^ 3) = 3" by (subst log_nat_power) simp_all
  then show ?thesis by simp
qed

text \<open>The sorted powers of a probe over transmitters of positive frequency.\<close>

lemma probe_sorted:
  assumes "\<forall>t \<in> set txs. 0 < freqMHz t"
  shows "array_sort cmp_desc (map row_pr (rows (probeAtWithRc rc p txs meshes)))
         = map Fin (sort_desc (map (receivedPower rc meshes p) txs))"
proof -
  have "map row_pr (rows (probeAtWithRc rc p txs meshes))
        = map Fin (map (receivedPower rc meshes p) txs)"
    using map_row_pr_enumerate [OF assms, of rc meshes p 0] by (simp add: rows_probe)
  then show ?thesis by (simp only: array_sort_Fin)
qed

lemma bestPower_probe:
  "bestPower (probeAtWithRc rc p txs meshes) =
     (case array_sort cmp_desc (map row_pr (rows (probeAtWithRc rc p txs meshes))) of
        [] \<Rightarrow> NegInf | b # _ \<Rightarrow> b)"
  by (simp add: probeAtWithRc_def Let_def split: prod.splits)

lemma margin_probe:
  "margin (probeAtWithRc rc p txs meshes) =
     (case array_sort cmp_desc (map row_pr (rows (probeAtWithRc rc p txs meshes))) of
        [] \<Rightarrow> NaN | [b] \<Rightarrow> js_sub b b | b # s # _ \<Rightarrow> js_sub b s)"
  by (simp add: probeAtWithRc_def Let_def js_sub_def split: prod.splits list.splits)

lemma bestPower_finite:
  assumes "txs \<noteq> []" and "\<forall>t \<in> set txs. 0 < freqMHz t"
  shows "bestPower (probeAtWithRc rc p txs meshes)
         = Fin (Max (set (map (receivedPower rc meshes p) txs)))"
proof -
  let ?xs = "map (receivedPower rc meshes p) txs"
  have "length (sort_desc ?xs) = length txs" by (simp add: length_sort_desc)
  then obtain b rest where br: "sort_desc ?xs = b # rest"
    using assms(1) by (cases "sort_desc ?xs") auto
  have "b = Max (set ?xs)" using sort_desc_hd [OF br] .
  then show ?thesis
    using br by (simp add: bestPower_probe probe_sorted [OF assms(2)])
qed

lemma margin_single:
  assumes "0 < freqMHz t"
  shows "margin (probeAtWithRc rc p [t] meshes) = Fin 0"
proof -
  have "sort_desc [receivedPower rc meshes p t] = [receivedPower rc meshes p t]"
    by (simp add: sort_desc_def)
  then show ?thesis
    using assms probe_sorted [of "[t]" rc p meshes]
    by (simp add: margin_probe js_sub_def)
qed

lemma margin_two_or_more:
  assumes "2 \<le> length txs" and "\<forall>t \<in> set txs. 0 < freqMHz t"
  shows "margin (probeAtWithRc rc p txs meshes)
         = Fin (Max (set (map (receivedPower rc meshes p) txs))
                - Max (set (remove1 (Max (set (map (receivedPower rc meshes p) txs)))
                                    (map (receivedPower rc meshes p) txs))))"
proof -
  let ?xs = "map (receivedPower rc meshes p) txs"
  have "length (sort_desc ?xs) = length txs" by (simp add: length_sort_desc)
  then obtain b s rest where br: "sort_desc ?xs = b # s # rest"
    using assms(1) by (cases "sort_desc ?xs"; cases "tl (sort_desc ?xs)") auto
  have "b = Max (set ?xs)" using sort_desc_hd [OF br] .
  moreover have "s = Max (set (remove1 (Max (set ?xs)) ?xs))" using sort_desc_second [OF br] .
  ultimately show ?thesis
    using br by (simp add: margin_probe probe_sorted [OF assms(2)] js_sub_def)
qed

lemma probe_empty:
  "probeAtWithRc rc p [] meshes =
     \<lparr>rows = [], bestIdx = 1, margin = NaN, bestPower = NegInf, qualityTier = Dead,
      interferenceCount = 0, handoverStable = False, weights = []\<rparr>"
  by (simp add: probeAtWithRc_def Let_def softmaxDbm_def array_sort_def js_sub_def
      MIN_POWER_DBM_def js_gt_def js_ge_def js_le_def)

section \<open>Softmax\<close>

lemma foldl_js_max2_Fin:
  "foldl js_max2 (Fin a) (map Fin xs) = Fin (foldl max a xs)"
  by (induction xs arbitrary: a) (simp_all add: js_max2_def max_def)

lemma Math_max_Fin:
  assumes "xs \<noteq> []"
  shows "\<exists>m. Math_max (map Fin xs) = Fin m"
proof -
  obtain x rest where "xs = x # rest" using assms by (cases xs) auto
  then show ?thesis
    by (simp add: Math_max_def js_max2_def foldl_js_max2_Fin)
qed

lemma foldl_js_add_Fin:
  "foldl js_add (Fin a) (map Fin es) = Fin (a + sum_list es)"
  by (induction es arbitrary: a) (simp_all add: add.assoc)

lemma sum_list_exp_pos:
  fixes m :: real
  assumes "xs \<noteq> []"
  shows "0 < sum_list (map (\<lambda>y. exp ((y - m) / 4)) xs)"
proof -
  obtain x rest where xr: "xs = x # rest" using assms by (cases xs) auto
  have "0 \<le> sum_list (map (\<lambda>y. exp ((y - m) / 4)) rest)"
    by (rule sum_list_nonneg) auto
  then show ?thesis using xr by (simp add: add_pos_nonneg)
qed

lemma softmax_weights_nonneg:
  assumes "xs \<noteq> []" and "w \<in> set (softmax_weights xs m)"
  shows "0 \<le> w"
  using assms sum_list_exp_pos [OF assms(1), of m]
  by (auto simp: softmax_weights_def)

lemma sum_list_divide: "sum_list (map (\<lambda>x. f x / (c::real)) xs) = sum_list (map f xs) / c"
  by (induction xs) (simp_all add: add_divide_distrib)

lemma softmax_weights_sum:
  assumes "xs \<noteq> []"
  shows "sum_list (softmax_weights xs m) = 1"
  using sum_list_exp_pos [OF assms, of m]
  by (simp add: softmax_weights_def sum_list_divide)

lemma softmaxDbm_Fin:
  assumes "xs \<noteq> []"
  shows "\<exists>m. fst (softmaxDbm (map Fin xs) 4) = map Fin (softmax_weights xs m)"
proof -
  obtain m where m: "Math_max (map Fin xs) = Fin m"
    using Math_max_Fin [OF assms] by blast
  let ?es = "map (\<lambda>y. exp ((y - m) / 4)) xs"
  have exps: "map (\<lambda>v. Math_exp (js_div (js_sub v (Fin m)) (Fin 4))) (map Fin xs) = map Fin ?es"
    by (simp add: js_sub_def comp_def)
  have pos: "0 < sum_list ?es" using sum_list_exp_pos [OF assms] .
  have total: "js_or (foldl js_add (Fin 0) (map Fin ?es)) (Fin 1) = Fin (sum_list ?es)"
    using pos foldl_js_add_Fin [of 0 ?es] by (simp add: js_or_def)
  have "fst (softmaxDbm (map Fin xs) 4) = map (\<lambda>e. js_div e (Fin (sum_list ?es))) (map Fin ?es)"
    using assms by (simp add: softmaxDbm_def Let_def m exps total del: map_map)
  also have "\<dots> = map Fin (softmax_weights xs m)"
    using pos by (simp add: softmax_weights_def comp_def)
  finally show ?thesis by blast
qed

lemma softmaxDbm_empty: "softmaxDbm [] temp = ([], - 1)"
  by (simp add: softmaxDbm_def)

lemma weights_probe:
  "weights (probeAtWithRc rc p txs meshes)
   = fst (softmaxDbm (map row_pr (rows (probeAtWithRc rc p txs meshes))) 4)"
  by (simp add: probeAtWithRc_def Let_def split: prod.splits)

section \<open>Claims about the point probe\<close>

lemma quality_step_Fin:
  "quality_step (Fin b) =
     (if - 70 < b then Excellent else if - 85 < b then Good else if - 100 < b then Fair
      else if - 110 < b then Poor else Dead)"
  by (simp add: quality_step_def)

lemma example_receivedPower:
  "receivedPower open_scene [()] (Vector3 0 0 0) (example_tx P) = P - 92.4"
  by (simp add: receivedPower_def lineOfSight_def open_scene_def example_tx_def v_sub_def
      v_length_def fspl_formula_def log10_1000)

lemma example_receivedPower_wall:
  "receivedPower wall_scene [()] (Vector3 0 0 0) (example_tx P) = P - 117.4"
  by (simp add: receivedPower_def lineOfSight_def wall_scene_def example_tx_def v_sub_def
      v_length_def fspl_formula_def log10_1000 normalize_def multiplyScalar_def Let_def)

text \<open>
  Claim C1: the quality tier of every probe is the step function of the best received power
  with strict thresholds (above -70 excellent, above -85 good, above -100 fair, above -110
  poor, else dead); over a non-empty set of transmitters of positive frequency the best
  power is the largest received power; -70.0 dBm is good and -69.9 dBm is excellent.
\<close>

theorem quality_tier_step_function:
  "qualityTier (probeAtWithRc rc p txs meshes)
     = quality_step (bestPower (probeAtWithRc rc p txs meshes)) \<and>
   (txs \<noteq> [] \<and> (\<forall>t \<in> set txs. 0 < freqMHz t) \<longrightarrow>
      bestPower (probeAtWithRc rc p txs meshes)
        = Fin (Max (set (map (receivedPower rc meshes p) txs)))) \<and>
   quality_step (Fin (- 70)) = Good \<and> quality_step (Fin (- 69.9)) = Excellent"
  using bestPower_finite [of txs rc p meshes]
  by (simp add: qualityTier_probe quality_step_Fin)

theorem quality_tier_step_function_witness:
  "bestPower (probeAtWithRc open_scene (Vector3 0 0 0) [example_tx 22.4] [()]) = Fin (- 70) \<and>
   qualityTier (probeAtWithRc open_scene (Vector3 0 0 0) [example_tx 22.4] [()]) = Good \<and>
   bestPower (probeAtWithRc open_scene (Vector3 0 0 0) [example_tx 22.5] [()]) = Fin (- 69.9) \<and>
   qualityTier (probeAtWithRc open_scene (Vector3 0 0 0) [example_tx 22.5] [()]) = Excellent"
proof -
  have f: "0 < freqMHz (example_tx P)" for P by (simp add: example_tx_def)
  show ?thesis
    using quality_tier_step_function [of open_scene "Vector3 0 0 0" "[example_tx 22.4]" "[()]"]
      quality_tier_step_function [of open_scene "Vector3 0 0 0" "[example_tx 22.5]" "[()]"]
    by (simp add: f example_receivedPower quality_step_Fin)
qed







text \<open>
  Claim C5, at its failing input: over exactly one transmitter the probe takes the
  second-best power to be the best one (\<^verbatim>\<open>sorted[1] ?? best\<close>), so the margin is 0 dB, not
  infinite, and the handover flag is false; the explanation route gives \<^verbatim>\<open>Infinity\<close> there.
\<close>

theorem single_transmitter_margin_zero:
  assumes "0 < freqMHz t"
  shows "margin (probeAtWithRc rc p [t] meshes) = Fin 0 \<and>
         \<not> handoverStable (probeAtWithRc rc p [t] meshes) \<and>
         route_margin best [] = PosInf"
  using margin_single [OF assms, of rc p meshes]
  by (simp add: handoverStable_probe route_margin_def)

theorem single_transmitter_margin_zero_witness:
  "margin (probeAtWithRc open_scene (Vector3 0 0 0) [example_tx 36] [()]) = Fin 0 \<and>
   \<not> handoverStable (probeAtWithRc open_scene (Vector3 0 0 0) [example_tx 36] [()]) \<and>
   route_margin (- 56.4) [] = PosInf"
  using single_transmitter_margin_zero [of "example_tx 36" open_scene "Vector3 0 0 0" "[()]" "- 56.4"]
  by (simp add: example_tx_def)

text \<open>
  Claim C6: the handover-stability flag of every probe is true exactly when the margin is
  at least 3.0 dB; a margin of 3.0 dB is stable and one of 2.99 dB is not.
\<close>

theorem handover_stable_iff:
  "handoverStable (probeAtWithRc rc p txs meshes) =
     (case margin (probeAtWithRc rc p txs meshes) of
        Fin m \<Rightarrow> 3 \<le> m | PosInf \<Rightarrow> True | NegInf \<Rightarrow> False | NaN \<Rightarrow> False)"
  by (simp add: handoverStable_probe js_ge_cases)

lemma example_margin:
  assumes "P2 \<le> P1"
  shows "margin (probeAtWithRc open_scene (Vector3 0 0 0) [example_tx P1, example_tx P2] [()])
         = Fin (P1 - P2)"
proof -
  have f: "\<forall>t \<in> set [example_tx P1, example_tx P2]. 0 < freqMHz t"
    by (simp add: example_tx_def)
  show ?thesis
    using assms
    by (simp add: margin_probe probe_sorted [OF f] example_receivedPower sort_desc_def js_sub_def)
qed

theorem handover_stable_iff_witness:
  "handoverStable (probeAtWithRc open_scene (Vector3 0 0 0) [example_tx 36, example_tx 33] [()]) \<and>
   \<not> handoverStable
       (probeAtWithRc open_scene (Vector3 0 0 0) [example_tx 36, example_tx 33.01] [()])"
  using handover_stable_iff [of open_scene "Vector3 0 0 0" "[example_tx 36, example_tx 33]" "[()]"]
    handover_stable_iff [of open_scene "Vector3 0 0 0" "[example_tx 36, example_tx 33.01]" "[()]"]
  by (simp add: example_margin)

lemma zero_frequency_probe:
  "map row_pr (rows (probeAtWithRc open_scene (Vector3 0 0 0) [(example_tx 36)\<lparr>freqMHz := 0\<rparr>] [()]))
     = [PosInf] \<and>
   weights (probeAtWithRc open_scene (Vector3 0 0 0) [(example_tx 36)\<lparr>freqMHz := 0\<rparr>] [()])
     = [NaN]"
  by (simp add: probeAtWithRc_def Let_def softmaxDbm_def probeRow_def example_tx_def
      open_scene_def v_sub_def v_length_def fsplDb_def Math_log10_def inf_times_def js_sub_def
      Math_max_def js_max2_def indexOf_def js_eq_def js_or_def)

text \<open>
  Claim C7, as stated: the weights of every non-empty list of received powers, and so of
  every non-empty probe, are non-negative and sum to 1. A transmitter whose frequency is 0
  (the frequency box accepts it) has \<^verbatim>\<open>Math.log10(0) = -Infinity\<close>, so its received power
  is \<^verbatim>\<open>Infinity\<close>; then \<^verbatim>\<open>v - maxv\<close> is \<^verbatim>\<open>NaN\<close> and the only weight is \<^verbatim>\<open>NaN\<close>, which
  is not non-negative and does not sum to 1.
\<close>

theorem softmax_weights_nan_counterexample:
  "map row_pr (rows (probeAtWithRc open_scene (Vector3 0 0 0) [(example_tx 36)\<lparr>freqMHz := 0\<rparr>] [()]))
     = [PosInf] \<and>
   fst (softmaxDbm [PosInf] 4) = [NaN] \<and>
   weights (probeAtWithRc open_scene (Vector3 0 0 0) [(example_tx 36)\<lparr>freqMHz := 0\<rparr>] [()])
     = [NaN] \<and>
   \<not> js_ge NaN (Fin 0) \<and> foldl js_add (Fin 0) [NaN] = NaN"
  using zero_frequency_probe
  by (simp add: softmaxDbm_def Let_def Math_max_def js_max2_def js_sub_def js_or_def js_ge_def
      js_le_def)

text \<open>
  Claim C7, amended: the weights of the empty list are empty; for every non-empty list of
  finite received powers the softmax weights at temperature 4 are finite and non-negative
  and sum to 1, within 1e-6; so do the weights of every probe over a non-empty set of
  transmitters of positive frequency.
\<close>

theorem softmax_weights_normalised:
  "fst (softmaxDbm [] 4) = [] \<and>
   (xs \<noteq> [] \<longrightarrow>
      (\<exists>ws. fst (softmaxDbm (map Fin xs) 4) = map Fin ws \<and> length ws = length xs \<and>
            (\<forall>w \<in> set ws. 0 \<le> w) \<and> sum_list ws = 1 \<and> \<bar>sum_list ws - 1\<bar> \<le> 1 / 10 ^ 6)) \<and>
   (txs \<noteq> [] \<and> (\<forall>t \<in> set txs. 0 < freqMHz t) \<longrightarrow>
      (\<exists>ws. weights (probeAtWithRc rc p txs meshes) = map Fin ws \<and> length ws = length txs \<and>
            (\<forall>w \<in> set ws. 0 \<le> w) \<and> sum_list ws = 1 \<and> \<bar>sum_list ws - 1\<bar> \<le> 1 / 10 ^ 6))"
proof -
  have gen: "\<exists>ws. fst (softmaxDbm (map Fin ys) 4) = map Fin ws \<and> length ws = length ys \<and>
            (\<forall>w \<in> set ws. 0 \<le> w) \<and> sum_list ws = 1 \<and> \<bar>sum_list ws - 1\<bar> \<le> 1 / 10 ^ 6"
    if ne: "ys \<noteq> []" for ys
  proof -
    obtain m where m: "fst (softmaxDbm (map Fin ys) 4) = map Fin (softmax_weights ys m)"
      using softmaxDbm_Fin [OF ne] by blast
    have "length (softmax_weights ys m) = length ys" by (simp add: softmax_weights_def)
    moreover have "\<forall>w \<in> set (softmax_weights ys m). 0 \<le> w"
      using softmax_weights_nonneg [OF ne] by blast
    moreover have "sum_list (softmax_weights ys m) = 1"
      using softmax_weights_sum [OF ne] .
    ultimately show ?thesis using m by (intro exI [of _ "softmax_weights ys m"]) simp
  qed
  have probe: "\<exists>ws. weights (probeAtWithRc rc p txs meshes) = map Fin ws \<and> length ws = length txs \<and>
            (\<forall>w \<in> set ws. 0 \<le> w) \<and> sum_list ws = 1 \<and> \<bar>sum_list ws - 1\<bar> \<le> 1 / 10 ^ 6"
    if ne: "txs \<noteq> []" and pos: "\<forall>t \<in> set txs. 0 < freqMHz t"
  proof -
    have "map row_pr (rows (probeAtWithRc rc p txs meshes))
          = map Fin (map (receivedPower rc meshes p) txs)"
      using map_row_pr_enumerate [OF pos, of rc meshes p 0] by (simp add: rows_probe)
    then show ?thesis
      using gen [of "map (receivedPower rc meshes p) txs"] ne
      by (simp add: weights_probe)
  qed
  show ?thesis
    using gen [of xs] probe by (simp add: softmaxDbm_empty)
qed

theorem softmax_weights_normalised_witness:
  "(\<exists>ws. fst (softmaxDbm [Fin (- 50), Fin (- 60)] 4) = map Fin ws \<and> length ws = 2 \<and>
         list_all (\<lambda>w. 0 \<le> w) ws \<and> sum_list ws = 1) \<and>
   (\<exists>ws. weights (probeAtWithRc open_scene (Vector3 0 0 0) [example_tx 36, example_tx 33] [()])
           = map Fin ws \<and> length ws = 2 \<and> list_all (\<lambda>w. 0 \<le> w) ws \<and> sum_list ws = 1)"
proof -
  have f: "0 < freqMHz (example_tx P)" for P by (simp add: example_tx_def)
  show ?thesis
    using softmax_weights_normalised [of "[- 50, - 60]" "[example_tx 36, example_tx 33]"
        open_scene "Vector3 0 0 0" "[()]"]
    by (auto simp: f list_all_iff)
qed

text \<open>
  Claim C8, as stated: a probe over no transmitter has no best index and an undefined
  margin treated as unbounded. The payload's best index is 1-based, and the probe turns
  \<^verbatim>\<open>softmaxDbm\<close>'s "none" (\<open>-1\<close>) into \<open>1\<close>; the margin is \<^verbatim>\<open>NaN\<close> and is not treated as
  unbounded, since the handover flag is false.
\<close>

theorem empty_probe_has_best_index_counterexample:
  "bestIdx (probeAtWithRc open_scene (Vector3 0 0 0) [] [()]) = 1 \<and>
   \<not> bestIdx (probeAtWithRc open_scene (Vector3 0 0 0) [] [()]) < 1 \<and>
   \<not> handoverStable (probeAtWithRc open_scene (Vector3 0 0 0) [] [()])"
  by (simp add: probe_empty)

text \<open>
  Claim C8, amended: a probe over no transmitter raises no error and yields empty rows and
  empty weights, the default best index 1, best power \<^verbatim>\<open>-Infinity\<close>, tier dead, no
  interferer, an undefined margin (\<^verbatim>\<open>NaN\<close>) and a false handover flag.
\<close>

theorem empty_probe_result:
  "probeAtWithRc rc p [] meshes =
     \<lparr>rows = [], bestIdx = 1, margin = NaN, bestPower = NegInf, qualityTier = Dead,
      interferenceCount = 0, handoverStable = False, weights = []\<rparr>"
  by (rule probe_empty)

theorem empty_probe_result_witness:
  "rows (probeAtWithRc open_scene (Vector3 0 0 0) [] [()]) = [] \<and>
   weights (probeAtWithRc open_scene (Vector3 0 0 0) [] [()]) = [] \<and>
   margin (probeAtWithRc open_scene (Vector3 0 0 0) [] [()]) = NaN"
  using empty_probe_result [of open_scene "Vector3 0 0 0" "[()]"] by simp

section \<open>Ray bundles\<close>

lemma log10_24: "138 / 100 \<le> log 10 (24::real)"
proof -
  have "(10::real) powr (138 / 100) \<le> 24"
  proof -
    have "((10::real) powr (138 / 100)) ^ 100 = 10 powr 138"
      by (simp add: powr_power)
    also have "\<dots> = (10::real) ^ 138"
      by (simp add: powr_realpow [symmetric])
    also have "\<dots> \<le> (24::real) ^ 100" by simp
    finally have "((10::real) powr (138 / 100)) ^ 100 \<le> 24 ^ 100" .
    then show ?thesis
      by (subst (asm) power_mono_iff) simp_all
  qed
  moreover have "(138 / 100 \<le> log 10 (24::real)) = ((10::real) powr (138 / 100) \<le> 24)"
    by (rule le_log_iff) simp_all
  ultimately show ?thesis by blast
qed

lemma fspl_formula_nonneg:
  assumes "24 \<le> f"
  shows "0 \<le> fspl_formula d f"
proof -
  have "log 10 24 \<le> log 10 f" using assms by (simp add: log_le_cancel_iff)
  then have a: "138 / 100 \<le> log 10 f" using log10_24 by linarith
  have "(1 / 1000 :: real) \<le> max (d / 1000) 0.001" by simp
  then have "log 10 (1 / 1000) \<le> log 10 (max (d / 1000) 0.001)"
    by (subst log_le_cancel_iff) (simp_all add: max_def)
  moreover have "log 10 (1 / 1000 :: real) = - 3"
  proof -
    have "log 10 ((10::real) ^ 3) = 3" by (subst log_nat_power) simp_all
    then show ?thesis by (simp add: log_divide)
  qed
  ultimately have b: "- 3 \<le> log 10 (max (d / 1000) 0.001)" by simp
  show ?thesis using a b by (simp add: fspl_formula_def)
qed

lemma cauchy_schwarz3:
  "\<bar>dot a b\<bar> \<le> v_length a * v_length b"
proof -
  obtain a1 a2 a3 where a: "a = Vector3 a1 a2 a3" by (cases a)
  obtain b1 b2 b3 where b: "b = Vector3 b1 b2 b3" by (cases b)
  have "(a1 * a1 + a2 * a2 + a3 * a3) * (b1 * b1 + b2 * b2 + b3 * b3)
        - (a1 * b1 + a2 * b2 + a3 * b3)\<^sup>2
        = (a1 * b2 - a2 * b1)\<^sup>2 + (a1 * b3 - a3 * b1)\<^sup>2 + (a2 * b3 - a3 * b2)\<^sup>2"
    by (simp add: power2_eq_square algebra_simps)
  then have "(a1 * b1 + a2 * b2 + a3 * b3)\<^sup>2
             \<le> (a1 * a1 + a2 * a2 + a3 * a3) * (b1 * b1 + b2 * b2 + b3 * b3)"
    by (smt (verit) zero_le_power2)
  then have "sqrt ((a1 * b1 + a2 * b2 + a3 * b3)\<^sup>2)
             \<le> sqrt ((a1 * a1 + a2 * a2 + a3 * a3) * (b1 * b1 + b2 * b2 + b3 * b3))"
    by (rule real_sqrt_le_mono)
  then show ?thesis
    by (simp add: a b dot_def v_length_def real_sqrt_mult)
qed

lemma v_length_nonneg: "0 \<le> v_length a"
  by (simp add: v_length_def)

lemma v_length_multiplyScalar: "v_length (multiplyScalar a s) = \<bar>s\<bar> * v_length a"
proof -
  have "vx a * s * (vx a * s) + vy a * s * (vy a * s) + vz a * s * (vz a * s)
        = s\<^sup>2 * (vx a * vx a + vy a * vy a + vz a * vz a)"
    by (simp add: power2_eq_square algebra_simps)
  then show ?thesis
    by (simp add: v_length_def multiplyScalar_def real_sqrt_mult)
qed

lemma v_length_normalize: "v_length (normalize a) \<le> 1"
  by (simp add: normalize_def v_length_multiplyScalar v_length_nonneg)

lemma grazing_range:
  "\<bar>dot (normalize n) (normalize d)\<bar> \<le> 1"
proof -
  have "\<bar>dot (normalize n) (normalize d)\<bar> \<le> v_length (normalize n) * v_length (normalize d)"
    by (rule cauchy_schwarz3)
  also have "\<dots> \<le> 1 * 1"
    by (intro mult_mono v_length_normalize v_length_nonneg) simp
  finally show ?thesis by simp
qed

lemma materialReflectionLossDb_nonneg: "0 \<le> materialReflectionLossDb m n d"
  using grazing_range [of n d] by (simp add: materialReflectionLossDb_def Let_def)

lemma march_stop:
  assumes "\<not> (bounces \<le> maxBounces \<and> js_gt pw (Fin MIN_POWER_DBM))"
  shows "march rc meshes tx maxBounces origin dir pw bounces first hs segs = (hs, segs)"
  by (subst march.simps) (simp only: assms if_False)

lemma march_miss:
  assumes "rc meshes origin dir 5000 = []"
  shows "march rc meshes tx maxBounces origin dir pw bounces first hs segs = (hs, segs)"
  by (subst march.simps) (simp add: assms)

lemma march_hit:
  fixes h :: hit and tx :: Tx
  defines "n \<equiv> (case hit_normal h of Some nw \<Rightarrow> nw | None \<Rightarrow> Vector3 0 1 0)"
  assumes "bounces \<le> maxBounces" and "MIN_POWER_DBM < q"
    and "rc meshes origin dir 5000 = h # rest" and "0 < freqMHz tx"
  shows "\<exists>hop sg.
           march rc meshes tx maxBounces origin dir (Fin q) bounces first hs segs =
             (if hopPower q first h dir tx \<le> MIN_POWER_DBM
              then (hs @ [hop], segs @ [sg])
              else march rc meshes tx maxBounces
                     (v_add (hit_point h) (multiplyScalar (reflect dir n) 0.25)) (reflect dir n)
                     (Fin (hopPower q first h dir tx)) (Suc bounces) False
                     (hs @ [hop]) (segs @ [sg])) \<and>
           prAfter hop = Fin (hopPower q first h dir tx)"
proof (cases first)
  case True
  show ?thesis
    apply (subst march.simps)
    apply (simp add: assms True Let_def fsplDb_finite js_sub_def hopPower_def split del: if_split cong: if_cong)
    apply (intro exI conjI)
     apply (rule refl)
    apply simp
    done
next
  case False
  show ?thesis
    apply (subst march.simps)
    apply (simp add: assms False Let_def fsplDb_finite js_sub_def hopPower_def split del: if_split cong: if_cong)
    apply (intro exI conjI)
     apply (rule refl)
    apply simp
    done
qed

lemma hopPower_le:
  assumes "24 \<le> freqMHz tx"
  shows "hopPower q first h dir tx \<le> q"
  using fspl_formula_nonneg [OF assms, of "hit_distance h"]
    materialReflectionLossDb_nonneg [of "hit_materialType h"
      "case hit_normal h of Some nw \<Rightarrow> nw | None \<Rightarrow> Vector3 0 1 0" dir]
  by (simp add: hopPower_def)

lemma march_profile:
  assumes f: "24 \<le> freqMHz tx"
  shows "map prAfter hs = map Fin ps0 \<Longrightarrow> sorted_wrt (\<ge>) ps0 \<Longrightarrow>
         \<forall>x \<in> set ps0. q \<le> x \<and> MIN_POWER_DBM < x \<and> x \<le> Q \<Longrightarrow> q \<le> Q \<Longrightarrow>
         length hs = bounces \<Longrightarrow> length segs = length hs \<Longrightarrow>
         \<exists>ps. map prAfter (fst (march rc meshes tx maxBounces origin dir (Fin q) bounces first hs segs))
                 = map Fin ps \<and>
              sorted_wrt (\<ge>) ps \<and> (\<forall>x \<in> set (butlast ps). MIN_POWER_DBM < x) \<and>
              (\<forall>x \<in> set ps. x \<le> Q) \<and>
              length ps \<le> max bounces (Suc maxBounces) \<and>
              length (snd (march rc meshes tx maxBounces origin dir (Fin q) bounces first hs segs))
                = length ps"
proof (induction "Suc maxBounces - bounces"
    arbitrary: bounces origin dir q first hs segs ps0)
  case 0
  then have "\<not> (bounces \<le> maxBounces \<and> js_gt (Fin q) (Fin MIN_POWER_DBM))" by simp
  then have "march rc meshes tx maxBounces origin dir (Fin q) bounces first hs segs = (hs, segs)"
    by (rule march_stop)
  moreover have "\<forall>x \<in> set (butlast ps0). MIN_POWER_DBM < x"
    using "0.prems"(3) by (auto dest: in_set_butlastD)
  moreover have "length ps0 = bounces"
    using "0.prems"(1,5) by (metis length_map)
  ultimately show ?case
    using "0.prems" by (intro exI [of _ ps0]) simp
next
  case (Suc k)
  have len: "length ps0 = bounces"
    using Suc.prems(1,5) by (metis length_map)
  have keep: "\<exists>ps. map prAfter hs = map Fin ps \<and> sorted_wrt (\<ge>) ps \<and>
       (\<forall>x \<in> set (butlast ps). MIN_POWER_DBM < x) \<and> (\<forall>x \<in> set ps. x \<le> Q) \<and>
       length ps \<le> max bounces (Suc maxBounces) \<and> length segs = length ps"
    using Suc.prems len by (intro exI [of _ ps0]) (auto dest: in_set_butlastD)
  show ?case
  proof (cases "MIN_POWER_DBM < q")
    case False
    then have "march rc meshes tx maxBounces origin dir (Fin q) bounces first hs segs = (hs, segs)"
      by (intro march_stop) simp
    then show ?thesis using keep by simp
  next
    case above: True
    show ?thesis
    proof (cases "rc meshes origin dir 5000")
      case Nil
      then have "march rc meshes tx maxBounces origin dir (Fin q) bounces first hs segs = (hs, segs)"
        by (rule march_miss)
      then show ?thesis using keep by simp
    next
      case (Cons h rest)
      have b: "bounces \<le> maxBounces" using Suc.hyps(2) by simp
      have fpos: "0 < freqMHz tx" using f by simp
      define q2 where "q2 = hopPower q first h dir tx"
      have q2: "q2 \<le> q" unfolding q2_def by (rule hopPower_le [OF f])
      obtain hop sg origin2 newDir where
        step: "march rc meshes tx maxBounces origin dir (Fin q) bounces first hs segs =
             (if q2 \<le> MIN_POWER_DBM then (hs @ [hop], segs @ [sg])
              else march rc meshes tx maxBounces origin2 newDir (Fin q2) (Suc bounces) False
                     (hs @ [hop]) (segs @ [sg]))"
        and hop: "prAfter hop = Fin q2"
        using march_hit [where rc = rc and meshes = meshes and origin = origin and dir = dir
            and first = first and hs = hs and segs = segs, OF b above Cons fpos]
        unfolding q2_def by blast
      have m2: "map prAfter (hs @ [hop]) = map Fin (ps0 @ [q2])"
        using Suc.prems(1) hop by simp
      have s2: "sorted_wrt (\<ge>) (ps0 @ [q2])"
        using Suc.prems(2,3) q2 by (auto simp: sorted_wrt_append)
      show ?thesis
      proof (cases "q2 \<le> MIN_POWER_DBM")
        case True
        then have "march rc meshes tx maxBounces origin dir (Fin q) bounces first hs segs
                   = (hs @ [hop], segs @ [sg])"
          using step by simp
        moreover have "\<forall>x \<in> set (ps0 @ [q2]). x \<le> Q"
          using Suc.prems(3,4) q2 by auto
        ultimately show ?thesis
          using m2 s2 Suc.prems(3,5,6) len b
          by (intro exI [of _ "ps0 @ [q2]"]) (simp add: butlast_append)
      next
        case False
        then have eq: "march rc meshes tx maxBounces origin dir (Fin q) bounces first hs segs
                   = march rc meshes tx maxBounces origin2 newDir (Fin q2) (Suc bounces) False
                       (hs @ [hop]) (segs @ [sg])"
          using step by simp
        have k: "k = Suc maxBounces - Suc bounces" using Suc.hyps(2) by simp
        have inv: "\<forall>x \<in> set (ps0 @ [q2]). q2 \<le> x \<and> MIN_POWER_DBM < x \<and> x \<le> Q"
          using Suc.prems(3,4) q2 False by auto
        have "\<exists>ps. map prAfter (fst (march rc meshes tx maxBounces origin2 newDir (Fin q2)
                       (Suc bounces) False (hs @ [hop]) (segs @ [sg]))) = map Fin ps \<and>
              sorted_wrt (\<ge>) ps \<and> (\<forall>x \<in> set (butlast ps). MIN_POWER_DBM < x) \<and>
              (\<forall>x \<in> set ps. x \<le> Q) \<and>
              length ps \<le> max (Suc bounces) (Suc maxBounces) \<and>
              length (snd (march rc meshes tx maxBounces origin2 newDir (Fin q2)
                       (Suc bounces) False (hs @ [hop]) (segs @ [sg]))) = length ps"
          using q2 Suc.prems(4,5,6)
          by (intro Suc.hyps(1) [OF k m2 s2 inv]) simp_all
        then show ?thesis
          using eq b by (simp add: max_def)
      qed
    qed
  qed
qed

lemma bundle_hops:
  assumes "b \<in> set (buildRayBundle rc tx meshes rayCount maxBounces)"
  shows "\<exists>origin dir. hops b = fst (march rc meshes tx maxBounces origin dir (Fin (powerDbm tx)) 0 True [] [])
           \<and> snd (march rc meshes tx maxBounces origin dir (Fin (powerDbm tx)) 0 True [] []) \<noteq> []"
proof -
  from assms obtain dir where "b \<in> set (bundleFor rc meshes tx maxBounces dir)"
    by (auto simp: buildRayBundle_def split: if_splits)
  then show ?thesis
    by (auto simp: bundleFor_def Let_def split: prod.splits if_splits)
      (metis fst_conv snd_conv)
qed

text \<open>
  Claim C2, amended: for a transmitter of at least 24 MHz (no hop then has a negative
  free-space loss), in every ray bundle \<^verbatim>\<open>buildRayBundle\<close> returns the powers \<open>prAfter\<close> are
  finite, never above the transmit power and non-increasing from hop to hop; there are between
  one and \<open>maxBounces + 1\<close> hops; and every hop but the last is above -110 dBm, so marching
  halts with the first hop at or below the floor (which may end below it).
\<close>

theorem ray_bundle_power_profile:
  assumes "24 \<le> freqMHz tx" and "b \<in> set (buildRayBundle rc tx meshes rayCount maxBounces)"
  shows "\<exists>ps. map prAfter (hops b) = map Fin ps \<and> ps \<noteq> [] \<and> length ps \<le> Suc maxBounces \<and>
              sorted_wrt (\<ge>) ps \<and> (\<forall>x \<in> set ps. x \<le> powerDbm tx) \<and>
              (\<forall>x \<in> set (butlast ps). - 110 < x)"
proof -
  obtain origin dir where
    h: "hops b = fst (march rc meshes tx maxBounces origin dir (Fin (powerDbm tx)) 0 True [] [])"
    and s: "snd (march rc meshes tx maxBounces origin dir (Fin (powerDbm tx)) 0 True [] []) \<noteq> []"
    using bundle_hops [OF assms(2)] by blast
  obtain ps where
    "map prAfter (fst (march rc meshes tx maxBounces origin dir (Fin (powerDbm tx)) 0 True [] []))
       = map Fin ps"
    "sorted_wrt (\<ge>) ps" "\<forall>x \<in> set (butlast ps). MIN_POWER_DBM < x"
    "\<forall>x \<in> set ps. x \<le> powerDbm tx" "length ps \<le> max 0 (Suc maxBounces)"
    "length (snd (march rc meshes tx maxBounces origin dir (Fin (powerDbm tx)) 0 True [] []))
       = length ps"
    using march_profile [OF assms(1), of "[]" "[]" "powerDbm tx" "powerDbm tx" 0 "[]"
        rc meshes maxBounces origin dir True]
    by auto
  then show ?thesis
    using h s by (intro exI [of _ ps]) (auto simp: MIN_POWER_DBM_def)
qed

lemma fibonacciSphereDirs_1: "fibonacciSphereDirs (Suc 0) = [Vector3 0 1 0]"
  by (simp add: fibonacciSphereDirs_def fibonacciDir_def Let_def normalize_def v_length_def
      multiplyScalar_def)

lemma reflect_up: "reflect (Vector3 0 1 0) (Vector3 0 (- 1) 0) = Vector3 0 (- 1) 0"
  by (simp add: reflect_def normalize_def v_length_def multiplyScalar_def v_sub_def dot_def)

lemma reflect_down: "reflect (Vector3 0 (- 1) 0) (Vector3 0 1 0) = Vector3 0 1 0"
  by (simp add: reflect_def normalize_def v_length_def multiplyScalar_def v_sub_def dot_def)

lemma log10_milli: "log 10 (1 / 1000 :: real) = - 3"
proof -
  have "log 10 ((10::real) ^ 3) = 3" by (subst log_nat_power) simp_all
  then show ?thesis by (simp add: log_divide)
qed

lemma slab_march:
  "map prAfter (fst (march (slab_scene 0.25 1000.5) [()] (example_tx 36) 2 (Vector3 1000 (1 / 2) 0)
      (Vector3 0 1 0) (Fin 36) 0 True [] [])) = [Fin (- 56.4), Fin (- 151.8)] \<and>
   snd (march (slab_scene 0.25 1000.5) [()] (example_tx 36) 2 (Vector3 1000 (1 / 2) 0)
      (Vector3 0 1 0) (Fin 36) 0 True [] []) \<noteq> []"
  apply (subst march.simps)
  apply (subst (2) march.simps)
  apply (simp add: slab_scene_def Let_def MIN_POWER_DBM_def DEFAULT_PWR_def fsplDb_finite fspl_formula_def
      log10_1000 js_sub_def reflect_up v_add_def multiplyScalar_def example_tx_def)
  apply (subst march.simps)
  apply (subst (2) march.simps)
  apply (simp add: slab_scene_def Let_def MIN_POWER_DBM_def DEFAULT_PWR_def fsplDb_finite fspl_formula_def
      log10_1000 js_sub_def reflect_up v_add_def multiplyScalar_def materialReflectionLossDb_def
      normalize_def v_length_def dot_def)
  done

lemma slab_bundle:
  "map (\<lambda>b. map prAfter (hops b))
     (buildRayBundle (slab_scene 0.25 1000.5) (example_tx 36) [()] 1 MAX_BOUNCES)
     = [[Fin (- 56.4), Fin (- 151.8)]]"
proof -
  have "pos (example_tx 36) = Vector3 1000 0 0" "powerDbm (example_tx 36) = 36"
    by (simp_all add: example_tx_def)
  then show ?thesis
    using slab_march
    by (simp add: buildRayBundle_def fibonacciSphereDirs_1 bundleFor_def Let_def
        v_add_def multiplyScalar_def MAX_BOUNCES_def case_prod_beta)
qed

lemma narrow_march:
  "map prAfter (fst (march (slab_scene 0.25 1.5) [()] ((example_tx 36)\<lparr>freqMHz := 1\<rparr>) 2
      (Vector3 1000 (1 / 2) 0) (Vector3 0 1 0) (Fin 36) 0 True [] []))
     = [Fin 63.6, Fin 88.2, Fin 112.8] \<and>
   snd (march (slab_scene 0.25 1.5) [()] ((example_tx 36)\<lparr>freqMHz := 1\<rparr>) 2
      (Vector3 1000 (1 / 2) 0) (Vector3 0 1 0) (Fin 36) 0 True [] []) \<noteq> []"
  apply (subst march.simps)
  apply (subst (2) march.simps)
  apply (simp add: slab_scene_def Let_def MIN_POWER_DBM_def DEFAULT_PWR_def fsplDb_finite fspl_formula_def
      log10_milli js_sub_def reflect_up v_add_def multiplyScalar_def example_tx_def)
  apply (subst march.simps)
  apply (subst (2) march.simps)
  apply (simp add: slab_scene_def Let_def MIN_POWER_DBM_def DEFAULT_PWR_def fsplDb_finite fspl_formula_def
      log10_milli js_sub_def reflect_down v_add_def multiplyScalar_def materialReflectionLossDb_def
      normalize_def v_length_def dot_def)
  apply (subst march.simps)
  apply (subst (2) march.simps)
  apply (simp add: slab_scene_def Let_def MIN_POWER_DBM_def DEFAULT_PWR_def fsplDb_finite fspl_formula_def
      log10_milli js_sub_def reflect_up v_add_def multiplyScalar_def materialReflectionLossDb_def
      normalize_def v_length_def dot_def)
  apply (subst march.simps)
  apply (subst (2) march.simps)
  apply simp
  done

lemma narrow_bundle:
  "map (\<lambda>b. map prAfter (hops b))
     (buildRayBundle (slab_scene 0.25 1.5) ((example_tx 36)\<lparr>freqMHz := 1\<rparr>) [()] 1 MAX_BOUNCES)
     = [[Fin 63.6, Fin 88.2, Fin 112.8]]"
proof -
  have "pos ((example_tx 36)\<lparr>freqMHz := 1\<rparr>) = Vector3 1000 0 0"
    "powerDbm ((example_tx 36)\<lparr>freqMHz := 1\<rparr>) = 36"
    by (simp_all add: example_tx_def)
  then show ?thesis
    using narrow_march
    by (simp add: buildRayBundle_def fibonacciSphereDirs_1 bundleFor_def Let_def
        v_add_def multiplyScalar_def MAX_BOUNCES_def case_prod_beta)
qed

text \<open>
  Claim C2, as stated: every hop's power is at least -110 dBm and the powers never increase.
  Between a floor and a ceiling 1000 m apart, the vertical ray of a 36 dBm transmitter at
  1 GHz is at -56.4 dBm after its first hop and at -151.8 dBm after its second, below the
  floor. With the slabs 1 m apart and the transmitter at 1 MHz, each hop's free-space loss is
  -27.6 dB and the power grows: 63.6, 88.2, 112.8 dBm.
\<close>

theorem ray_bundle_floor_counterexample:
  "map (\<lambda>b. map prAfter (hops b))
     (buildRayBundle (slab_scene 0.25 1000.5) (example_tx 36) [()] 1 MAX_BOUNCES)
     = [[Fin (- 56.4), Fin (- 151.8)]] \<and>
   \<not> js_ge (Fin (- 151.8)) (Fin MIN_POWER_DBM) \<and>
   map (\<lambda>b. map prAfter (hops b))
     (buildRayBundle (slab_scene 0.25 1.5) ((example_tx 36)\<lparr>freqMHz := 1\<rparr>) [()] 1 MAX_BOUNCES)
     = [[Fin 63.6, Fin 88.2, Fin 112.8]] \<and>
   \<not> js_le (Fin 88.2) (Fin 63.6)"
  using slab_bundle narrow_bundle by (simp add: MIN_POWER_DBM_def)

theorem ray_bundle_power_profile_witness:
  "\<exists>ps. map prAfter (hops (hd (buildRayBundle (slab_scene 0.25 1000.5) (example_tx 36) [()] 1
                                 MAX_BOUNCES)))
          = map Fin ps \<and> ps \<noteq> [] \<and> length ps \<le> 3 \<and>
        sorted_wrt (\<ge>) ps \<and> list_all (\<lambda>x. x \<le> 36) ps \<and> list_all (\<lambda>x. - 110 < x) (butlast ps)"
proof -
  have ne: "buildRayBundle (slab_scene 0.25 1000.5) (example_tx 36) [()] 1 MAX_BOUNCES \<noteq> []"
    using slab_bundle by auto
  have "24 \<le> freqMHz (example_tx 36)" "powerDbm (example_tx 36) = 36"
    by (simp_all add: example_tx_def)
  then show ?thesis
    using ray_bundle_power_profile [of "example_tx 36"
        "hd (buildRayBundle (slab_scene 0.25 1000.5) (example_tx 36) [()] 1 MAX_BOUNCES)"
        "slab_scene 0.25 1000.5" "[()]" 1 MAX_BOUNCES]
      ne
    by (simp add: MAX_BOUNCES_def list_all_iff)
qed

section \<open>Claims about the interference field\<close>




















section \<open>Drive test\<close>




















end
